theory Spec2Isabelle
  imports Complex_Main
begin

section \<open>Actor-Critic (maro/rl/algorithms/ac.py)\<close>

text \<open>
  A shallow embedding of \<^verbatim>\<open>ActorCriticConfig\<close> and of the methods of
  \<^verbatim>\<open>ActorCritic\<close>. Tensor and array entries are modelled as real numbers
  (finite values, exact arithmetic); one-dimensional tensors are lists. A tensor that
  \<^verbatim>\<open>squeeze()\<close> leaves with a single element is the singleton list: in
  elementwise arithmetic it is broadcast exactly as the zero-dimensional tensor is.
  Line 85 of ac.py declares \<^verbatim>\<open>_compute_actor_loss\<close> without a body; the embedding
  covers the methods that have one.
\<close>

subsection \<open>Errors\<close>

text \<open>
  The exceptions the modelled code paths can raise: \<^verbatim>\<open>RuntimeError\<close> is what the
  tensor library raises for shapes that cannot be broadcast and for a
  \<^verbatim>\<open>gather\<close> index out of bounds; \<^verbatim>\<open>ValueError\<close> and
  \<^verbatim>\<open>TypeError\<close> come from \<^verbatim>\<open>np.random.choice\<close>;
  \<^verbatim>\<open>AttributeError\<close> is the read of an attribute that was never bound.
  \<^verbatim>\<open>ShapeMismatchError\<close> is raised nowhere in ac.py; it is the error the
  specification gives the return estimator for sequences of different lengths, and the
  model of the estimator also answers a hyperparameter outside its contract with
  \<^verbatim>\<open>ValueError\<close>.
\<close>

datatype error = ValueError | TypeError | RuntimeError | AttributeError | ShapeMismatchError

subsection \<open>ActorCriticConfig\<close>

record ActorCriticConfig =
  num_actions :: int
  reward_decay :: real
  actor_train_iters :: int
  critic_train_iters :: int
  k :: int
  lam :: real

text \<open>
  \<^verbatim>\<open>ActorCriticConfig.__init__\<close> (lines 36-45): six assignments and nothing else.
  The result is a sum so that "no exception is raised" can be stated; the source has no
  \<^verbatim>\<open>raise\<close>, so the model has no \<open>Inl\<close> branch.
\<close>

definition ActorCriticConfig_init ::
  "int \<Rightarrow> real \<Rightarrow> int \<Rightarrow> int \<Rightarrow> int \<Rightarrow> real \<Rightarrow> error + ActorCriticConfig" where
  "ActorCriticConfig_init num_actions' reward_decay' actor_train_iters' critic_train_iters' k' lam' =
     Inr \<lparr> num_actions = num_actions',
           reward_decay = reward_decay',
           actor_train_iters = actor_train_iters',
           critic_train_iters = critic_train_iters',
           k = k',
           lam = lam' \<rparr>"

text \<open>The defaults of the signature: \<^verbatim>\<open>k: int = -1, lam: float = 1.0\<close>.\<close>

definition ActorCriticConfig_init_defaults ::
  "int \<Rightarrow> real \<Rightarrow> int \<Rightarrow> int \<Rightarrow> error + ActorCriticConfig" where
  "ActorCriticConfig_init_defaults num_actions' reward_decay' actor_train_iters' critic_train_iters' =
     ActorCriticConfig_init num_actions' reward_decay' actor_train_iters' critic_train_iters' (- 1) 1"

subsection \<open>Elementwise tensor arithmetic\<close>

text \<open>
  A binary elementwise operation of the tensor library on one-dimensional operands:
  equal lengths combine index by index; an operand with a single element is broadcast
  over the other; any other pair of lengths raises \<^verbatim>\<open>RuntimeError\<close>
  ("The size of tensor a must match the size of tensor b").
\<close>

definition tensor_binop :: "('a \<Rightarrow> 'b \<Rightarrow> 'c) \<Rightarrow> 'a list \<Rightarrow> 'b list \<Rightarrow> error + 'c list" where
  "tensor_binop f a b =
     (if length a = length b then Inr (map2 f a b)
      else if length b = 1 then Inr (map (\<lambda>x. f x (hd b)) a)
      else if length a = 1 then Inr (map (\<lambda>y. f (hd a) y) b)
      else Inl RuntimeError)"

text \<open>Line 90 of \<^verbatim>\<open>train\<close>: \<^verbatim>\<open>advantages = return_est - state_values\<close>.\<close>

definition tensor_sub :: "real list \<Rightarrow> real list \<Rightarrow> error + real list" where
  "tensor_sub return_est state_values = tensor_binop (\<lambda>g v. g - v) return_est state_values"

subsection \<open>The values a logarithm can take\<close>

text \<open>
  \<^verbatim>\<open>torch.log\<close> raises nothing: at zero it returns \<open>-inf\<close> and at a negative
  argument \<open>nan\<close>. These are the only non-finite values the modelled code can create
  from finite inputs, so the loss is a value of \<open>fval\<close>, with the arithmetic of the
  infinities and of \<open>nan\<close> written out.
\<close>

datatype fval = Fin real | PInf | NInf | NaN

definition torch_log :: "real \<Rightarrow> fval" where
  "torch_log x = (if 0 < x then Fin (ln x) else if x = 0 then NInf else NaN)"

fun fneg :: "fval \<Rightarrow> fval" where
  "fneg (Fin x) = Fin (- x)"
| "fneg PInf = NInf"
| "fneg NInf = PInf"
| "fneg NaN = NaN"

text \<open>The product with a finite factor (an advantage).\<close>

fun fmul :: "fval \<Rightarrow> real \<Rightarrow> fval" where
  "fmul (Fin x) a = Fin (x * a)"
| "fmul PInf a = (if 0 < a then PInf else if a < 0 then NInf else NaN)"
| "fmul NInf a = (if 0 < a then NInf else if a < 0 then PInf else NaN)"
| "fmul NaN a = NaN"

fun fadd :: "fval \<Rightarrow> fval \<Rightarrow> fval" where
  "fadd (Fin x) (Fin y) = Fin (x + y)"
| "fadd NaN y = NaN"
| "fadd x NaN = NaN"
| "fadd PInf NInf = NaN"
| "fadd NInf PInf = NaN"
| "fadd PInf y = PInf"
| "fadd x PInf = PInf"
| "fadd NInf y = NInf"
| "fadd x NInf = NInf"

fun fdiv_count :: "fval \<Rightarrow> nat \<Rightarrow> fval" where
  "fdiv_count (Fin x) n = Fin (x / real n)"
| "fdiv_count PInf n = PInf"
| "fdiv_count NInf n = NInf"
| "fdiv_count NaN n = NaN"

text \<open>\<^verbatim>\<open>.mean()\<close>: the mean of an empty tensor is \<open>nan\<close>.\<close>

definition fmean :: "fval list \<Rightarrow> fval" where
  "fmean xs = (if xs = [] then NaN else fdiv_count (foldl fadd (Fin 0) xs) (length xs))"

subsection \<open>The core model\<close>

text \<open>
  \<^verbatim>\<open>MultiTaskLearningModel\<close> is an external collaborator; the algorithm uses four
  things of it, taken here as parameters. \<open>'p\<close> is the parameter set of the network and
  \<open>'s\<close> a state vector. \<open>actor\<close> and \<open>critic\<close> are the forward evaluations
  \<^verbatim>\<open>self._core_model(states, task="actor")\<close> and
  \<^verbatim>\<open>self._core_model(states, task="critic").squeeze()\<close> under given parameters and
  a given mode flag (\<open>True\<close> is training mode): one row of action probabilities per
  state, and one value per state. \<open>step\<close> is \<^verbatim>\<open>self._core_model.step(loss)\<close>: the
  loss tensor carries its autograd graph, so the optimiser receives the loss as a
  function of the parameters together with the current parameters.
\<close>

record ('p, 's) core_model =
  actor :: "'p \<Rightarrow> bool \<Rightarrow> 's list \<Rightarrow> real list list"
  critic :: "'p \<Rightarrow> bool \<Rightarrow> 's list \<Rightarrow> real list"
  step :: "'p \<Rightarrow> ('p \<Rightarrow> error + fval) \<Rightarrow> 'p"
  has_trainable_shared_layers :: bool

text \<open>The mutable state of \<^verbatim>\<open>self._core_model\<close>: its parameters and its mode flag.\<close>

record 'p model_state =
  params :: 'p
  training :: bool

subsection \<open>Return estimates\<close>

text \<open>
  Modelled from the spec: \<^verbatim>\<open>get_lambda_returns\<close> of
  \<^verbatim>\<open>maro/rl/utils/trajectory_utils.py\<close> is imported by ac.py but is not among the
  sources. Section 4.1 of the specification: the n-step return at \<open>t\<close> is
  \<open>\<Sum>i<n. \<gamma>^i * r[t+i] + \<gamma>^n * v[t+n]\<close>, and when \<open>t + n \<ge> T\<close> the sum is truncated at
  the end of the trajectory and the bootstrap term is omitted.
\<close>

definition n_step_return :: "real list \<Rightarrow> real list \<Rightarrow> real \<Rightarrow> nat \<Rightarrow> nat \<Rightarrow> real" where
  "n_step_return r v \<gamma> t n =
     (if length r \<le> t + n
      then sum_list (map (\<lambda>i. \<gamma> ^ i * r ! (t + i)) [0..<length r - t])
      else sum_list (map (\<lambda>i. \<gamma> ^ i * r ! (t + i)) [0..<n]) + \<gamma> ^ n * v ! (t + n))"

text \<open>
  Modelled from the spec: the blend of the n-step returns for \<open>n = 1..(T - t)\<close> with
  weights \<open>(1 - \<lambda>) * \<lambda>^(n - 1)\<close>, renormalised by their total.
\<close>

definition lambda_weight :: "real \<Rightarrow> nat \<Rightarrow> real" where
  "lambda_weight l n = (1 - l) * l ^ (n - 1)"

definition lambda_blend :: "real list \<Rightarrow> real list \<Rightarrow> real \<Rightarrow> real \<Rightarrow> nat \<Rightarrow> real" where
  "lambda_blend r v \<gamma> l t =
     (let horizons = [1..<Suc (length r - t)]
      in sum_list (map (\<lambda>n. lambda_weight l n * n_step_return r v \<gamma> t n) horizons)
         / sum_list (map (lambda_weight l) horizons))"

text \<open>
  Modelled from the spec: the return estimator. Rewards and value estimates of different
  lengths are a \<^verbatim>\<open>ShapeMismatchError\<close> (section 7). \<open>k = -1\<close> is the full remaining
  trajectory and \<open>k \<ge> 1\<close> the k-step return; the specification leaves \<open>k = 0\<close> to be
  rejected and says nothing of \<open>k < -1\<close> or of a \<open>\<lambda>\<close> outside \<open>[0, 1]\<close>: all three are
  rejected here. With \<open>\<lambda> = 1\<close> the estimate is the k-step (or full) return; otherwise it
  is the blend over the horizons \<open>1..(T - t)\<close>.
\<close>

definition get_lambda_returns ::
  "real list \<Rightarrow> real list \<Rightarrow> real \<Rightarrow> real \<Rightarrow> int \<Rightarrow> error + real list" where
  "get_lambda_returns rewards vals \<gamma> l h =
     (if length rewards \<noteq> length vals then Inl ShapeMismatchError
      else if h = 0 \<or> h < - 1 \<or> l < 0 \<or> 1 < l then Inl ValueError
      else if l = 1 then
        (if h = - 1
         then Inr (map (\<lambda>t. n_step_return rewards vals \<gamma> t (length rewards - t)) [0..<length rewards])
         else Inr (map (\<lambda>t. n_step_return rewards vals \<gamma> t (nat h)) [0..<length rewards]))
      else Inr (map (\<lambda>t. lambda_blend rewards vals \<gamma> l t) [0..<length rewards]))"

text \<open>
  \<^verbatim>\<open>_get_values_and_bootstrapped_returns\<close> (lines 75-83). The value estimates are
  detached: they enter the return estimate and the advantages as constants.
\<close>

definition get_values_and_bootstrapped_returns ::
  "('p, 's) core_model \<Rightarrow> ActorCriticConfig \<Rightarrow> 'p model_state \<Rightarrow> 's list \<Rightarrow> real list
     \<Rightarrow> error + (real list \<times> real list)" where
  "get_values_and_bootstrapped_returns M cfg ms state_sequence reward_sequence =
     (let state_values = critic M (params ms) (training ms) state_sequence
      in case get_lambda_returns reward_sequence state_values (reward_decay cfg) (lam cfg) (k cfg) of
           Inl e \<Rightarrow> Inl e
         | Inr return_est \<Rightarrow> Inr (state_values, return_est))"

subsection \<open>train\<close>

text \<open>
  \<^verbatim>\<open>.gather(1, actions.unsqueeze(1)).squeeze()\<close> (line 97): the probability of the
  action taken, row by row. The index may have fewer rows than the input, never more,
  and every index must lie within its row; otherwise \<^verbatim>\<open>RuntimeError\<close>.
\<close>

definition gather_taken :: "real list list \<Rightarrow> int list \<Rightarrow> error + real list" where
  "gather_taken probs actions =
     (if length probs < length actions then Inl RuntimeError
      else if list_ex (\<lambda>(row, a). a < 0 \<or> int (length row) \<le> a) (zip probs actions)
      then Inl RuntimeError
      else Inr (map (\<lambda>(row, a). row ! nat a) (zip probs actions)))"

text \<open>
  Lines 97-98:
  \<^verbatim>\<open>actor_loss = -(torch.log(action_prob) * advantages).mean()\<close>. The logarithm is
  applied to the gathered probabilities as they are.
\<close>

definition actor_loss :: "real list list \<Rightarrow> int list \<Rightarrow> real list \<Rightarrow> error + fval" where
  "actor_loss probs actions advantages =
     (case gather_taken probs actions of
        Inl e \<Rightarrow> Inl e
      | Inr action_prob \<Rightarrow>
          (case tensor_binop fmul (map torch_log action_prob) advantages of
             Inl e \<Rightarrow> Inl e
           | Inr weighted \<Rightarrow> Inr (fneg (fmean weighted))))"

text \<open>
  The policy loop (lines 96-99), \<open>n\<close> iterations of
  \<^verbatim>\<open>for _ in range(self._config.actor_train_iters)\<close>. The result is the outcome, the
  model state left behind and the loss values handed to \<^verbatim>\<open>step\<close>, in order. An
  exception leaves the parameters of the steps already taken.
\<close>

fun actor_loop ::
  "('p, 's) core_model \<Rightarrow> 's list \<Rightarrow> int list \<Rightarrow> real list \<Rightarrow> nat \<Rightarrow> 'p model_state
     \<Rightarrow> (error + unit) \<times> 'p model_state \<times> fval list" where
  "actor_loop M states actions advantages 0 ms = (Inr (), ms, [])"
| "actor_loop M states actions advantages (Suc n) ms =
     (let loss_graph = (\<lambda>q. actor_loss (actor M q (training ms) states) actions advantages)
      in case loss_graph (params ms) of
           Inl e \<Rightarrow> (Inl e, ms, [])
         | Inr loss \<Rightarrow>
             (case actor_loop M states actions advantages n
                     (ms\<lparr>params := step M (params ms) loss_graph\<rparr>) of
                (r, ms', losses) \<Rightarrow> (r, ms', loss # losses)))"

text \<open>
  The value loop (lines 102-104). \<^verbatim>\<open>self._critic_loss_func\<close> is read at line 103
  and bound nowhere in ac.py: \<^verbatim>\<open>ActorCritic.__init__\<close> hands only the model and
  the configuration to its base class, and \<^verbatim>\<open>ActorCriticConfig\<close> documents an
  argument \<^verbatim>\<open>critic_loss_func\<close> that its \<^verbatim>\<open>__slots__\<close> and
  \<^verbatim>\<open>__init__\<close> omit. The attribute is therefore a parameter that may be unbound:
  \<open>None\<close> is the unbound attribute, whose read (evaluated before the forward pass of the
  same line) raises \<^verbatim>\<open>AttributeError\<close> in the first iteration, and \<open>Some f\<close> is
  a loss function \<open>f\<close> that a caller has bound. \<open>return_est\<close> is the tensor computed
  before the loops.
\<close>

fun critic_loop ::
  "('p, 's) core_model \<Rightarrow> (real list \<Rightarrow> real list \<Rightarrow> fval) option \<Rightarrow> 's list \<Rightarrow> real list \<Rightarrow> nat
     \<Rightarrow> 'p model_state \<Rightarrow> (error + unit) \<times> 'p model_state \<times> fval list" where
  "critic_loop M critic_loss_func states return_est 0 ms = (Inr (), ms, [])"
| "critic_loop M None states return_est (Suc n) ms = (Inl AttributeError, ms, [])"
| "critic_loop M (Some loss_func) states return_est (Suc n) ms =
     (let loss_graph = (\<lambda>q. loss_func (critic M q (training ms) states) return_est)
      in case critic_loop M (Some loss_func) states return_est n
                (ms\<lparr>params := step M (params ms) (\<lambda>q. Inr (loss_graph q))\<rparr>) of
           (r, ms', losses) \<Rightarrow> (r, ms', loss_graph (params ms) # losses))"

text \<open>
  \<^verbatim>\<open>train\<close> (lines 87-104). \<^verbatim>\<open>range(n)\<close> is empty for \<open>n \<le> 0\<close>, hence
  \<open>nat\<close>. The branch for a model with trainable shared layers is \<^verbatim>\<open>pass\<close>.
\<close>

definition train ::
  "('p, 's) core_model \<Rightarrow> ActorCriticConfig \<Rightarrow> (real list \<Rightarrow> real list \<Rightarrow> fval) option
     \<Rightarrow> 's list \<Rightarrow> int list \<Rightarrow> real list \<Rightarrow> 'p model_state
     \<Rightarrow> (error + unit) \<times> 'p model_state \<times> fval list" where
  "train M cfg critic_loss_func states actions rewards ms =
     (case get_values_and_bootstrapped_returns M cfg ms states rewards of
        Inl e \<Rightarrow> (Inl e, ms, [])
      | Inr (state_values, return_est) \<Rightarrow>
          (case tensor_sub return_est state_values of
             Inl e \<Rightarrow> (Inl e, ms, [])
           | Inr advantages \<Rightarrow>
               if has_trainable_shared_layers M then (Inr (), ms, [])
               else
                 (case actor_loop M states actions advantages (nat (actor_train_iters cfg)) ms of
                    (Inl e, ms1, losses1) \<Rightarrow> (Inl e, ms1, losses1)
                  | (Inr u, ms1, losses1) \<Rightarrow>
                      (case critic_loop M critic_loss_func states return_est
                              (nat (critic_train_iters cfg)) ms1 of
                         (r, ms2, losses2) \<Rightarrow> (r, ms2, losses1 @ losses2)))))"

subsection \<open>choose_action\<close>

text \<open>
  What \<^verbatim>\<open>.squeeze().numpy()\<close> leaves of the two-dimensional output of the policy:
  every axis of size one is dropped, so a single row with a single entry becomes a
  zero-dimensional array.
\<close>

datatype ndarray = Arr0 real | Arr1 "real list" | Arr2 "real list list"

fun squeeze :: "real list list \<Rightarrow> ndarray" where
  "squeeze [[x]] = Arr0 x"
| "squeeze [row] = Arr1 row"
| "squeeze rows =
     (if list_all (\<lambda>row. length row = 1) rows then Arr1 (map hd rows) else Arr2 rows)"

text \<open>
  The global generator of \<^verbatim>\<open>np.random\<close>: \<open>'g\<close> is its state and
  \<open>random_sample\<close> draws one number of \<open>[0, 1)\<close> and advances the state. \<open>atol\<close> is the
  tolerance of \<^verbatim>\<open>choice\<close> on the sum of the probabilities (the square root of the
  machine epsilon of the array's float type).
\<close>

record 'g np_random =
  random_sample :: "'g \<Rightarrow> real \<times> 'g"
  atol :: real

text \<open>\<^verbatim>\<open>p.cumsum()\<close>.\<close>

fun cumsum_from :: "real \<Rightarrow> real list \<Rightarrow> real list" where
  "cumsum_from acc [] = []"
| "cumsum_from acc (x # xs) = (acc + x) # cumsum_from (acc + x) xs"

definition cumsum :: "real list \<Rightarrow> real list" where
  "cumsum xs = cumsum_from 0 xs"

text \<open>
  \<^verbatim>\<open>cdf.searchsorted(u, side='right')\<close> on a sorted array: the number of entries
  that are at most \<open>u\<close>.
\<close>

definition searchsorted_right :: "real list \<Rightarrow> real \<Rightarrow> nat" where
  "searchsorted_right cdf u = length (filter (\<lambda>c. c \<le> u) cdf)"

text \<open>
  \<^verbatim>\<open>np.random.choice(a, p=p)\<close> for an integer \<open>a\<close>, one sample, with replacement.
  Its checks, in its order: \<open>a\<close> must be positive; \<^verbatim>\<open>len(p)\<close> is a
  \<^verbatim>\<open>TypeError\<close> on a zero-dimensional array; \<open>p\<close> must be one-dimensional, of size
  \<open>a\<close>, without a negative entry and with a sum within \<open>atol\<close> of one (each a
  \<^verbatim>\<open>ValueError\<close>). The sample is the position of one uniform draw in the normalised
  cumulative sums; the generator advances only when a sample is drawn.
\<close>

definition np_random_choice ::
  "'g np_random \<Rightarrow> int \<Rightarrow> ndarray \<Rightarrow> 'g \<Rightarrow> (error + nat) \<times> 'g" where
  "np_random_choice R a p g =
     (if a \<le> 0 then (Inl ValueError, g)
      else case p of
        Arr0 x \<Rightarrow> (Inl TypeError, g)
      | Arr2 rows \<Rightarrow> (Inl ValueError, g)
      | Arr1 xs \<Rightarrow>
          if int (length xs) \<noteq> a then (Inl ValueError, g)
          else if list_ex (\<lambda>x. x < 0) xs then (Inl ValueError, g)
          else if atol R < \<bar>sum_list xs - 1\<bar> then (Inl ValueError, g)
          else (let cdf = map (\<lambda>c. c / last (cumsum xs)) (cumsum xs);
                    (u, g') = random_sample R g
                in (Inr (searchsorted_right cdf u), g')))"

text \<open>
  \<^verbatim>\<open>choose_action\<close> (lines 68-73). \<^verbatim>\<open>self._core_model.eval()\<close> clears the
  mode flag before the forward pass; under \<^verbatim>\<open>torch.no_grad()\<close> the forward pass
  builds no graph, so nothing here can reach \<open>step\<close>. \<open>epsilon\<close> is the second argument
  of the method, \<open>None\<close> by default.
\<close>

definition choose_action ::
  "('p, 's) core_model \<Rightarrow> ActorCriticConfig \<Rightarrow> 'g np_random \<Rightarrow> 's \<Rightarrow> real option
     \<Rightarrow> 'p model_state \<Rightarrow> 'g \<Rightarrow> (error + nat) \<times> 'p model_state \<times> 'g" where
  "choose_action M cfg R state epsilon ms g =
     (let ms' = ms\<lparr>training := False\<rparr>;
          action_dist = squeeze (actor M (params ms') (training ms') [state])
      in case np_random_choice R (num_actions cfg) action_dist g of
           (r, g') \<Rightarrow> (r, ms', g'))"

subsection \<open>What one iteration does to the parameters\<close>

text \<open>
  The bodies of the two loops of \<^verbatim>\<open>train\<close> as functions on the parameters, for a
  mode flag \<open>tr\<close>: one step on the policy loss, and one step on the value loss against
  the targets \<open>return_est\<close>. In both, the loss handed to \<open>step\<close> is evaluated from a
  forward pass under the parameters the step starts from.
\<close>

definition policy_step ::
  "('p, 's) core_model \<Rightarrow> bool \<Rightarrow> 's list \<Rightarrow> int list \<Rightarrow> real list \<Rightarrow> 'p \<Rightarrow> 'p" where
  "policy_step M tr states actions advantages q =
     step M q (\<lambda>q'. actor_loss (actor M q' tr states) actions advantages)"

definition value_step ::
  "('p, 's) core_model \<Rightarrow> (real list \<Rightarrow> real list \<Rightarrow> fval) \<Rightarrow> bool \<Rightarrow> 's list \<Rightarrow> real list
     \<Rightarrow> 'p \<Rightarrow> 'p" where
  "value_step M critic_loss_func tr states return_est q =
     step M q (\<lambda>q'. Inr (critic_loss_func (critic M q' tr states) return_est))"

text \<open>
  The parameters after \<open>i\<close> iterations of the policy loop started in the model state
  \<open>ms\<close>, and after \<open>j\<close> iterations of the value loop started from the parameters \<open>p\<close>.
\<close>

definition policy_params ::
  "('p, 's) core_model \<Rightarrow> 'p model_state \<Rightarrow> 's list \<Rightarrow> int list \<Rightarrow> real list \<Rightarrow> nat \<Rightarrow> 'p" where
  "policy_params M ms states actions advantages i =
     (policy_step M (training ms) states actions advantages ^^ i) (params ms)"

definition value_params ::
  "('p, 's) core_model \<Rightarrow> (real list \<Rightarrow> real list \<Rightarrow> fval) \<Rightarrow> 'p model_state \<Rightarrow> 's list
     \<Rightarrow> real list \<Rightarrow> 'p \<Rightarrow> nat \<Rightarrow> 'p" where
  "value_params M critic_loss_func ms states return_est p j =
     (value_step M critic_loss_func (training ms) states return_est ^^ j) p"

text \<open>
  A batch of probability rows fits the actions taken when there is one row per action
  and every action is an index into its row.
\<close>

definition rows_fit :: "real list list \<Rightarrow> int list \<Rightarrow> bool" where
  "rows_fit probs actions = list_all2 (\<lambda>row a. 0 \<le> a \<and> a < int (length row)) probs actions"

text \<open>
  The policy loss in the words of the specification, to be compared with
  \<open>actor_loss\<close>: the negated mean over \<open>t\<close> of the logarithm of the probability of the
  action taken at \<open>t\<close>, times the advantage at \<open>t\<close>.
\<close>

definition spec_policy_loss :: "real list list \<Rightarrow> int list \<Rightarrow> real list \<Rightarrow> fval" where
  "spec_policy_loss probs actions advantages =
     fneg (fmean (map (\<lambda>t. fmul (torch_log (probs ! t ! nat (actions ! t))) (advantages ! t))
                    [0..<length actions]))"

subsection \<open>A concrete trajectory\<close>

text \<open>
  Three one-dimensional states, the actions \<open>0, 1, 0\<close>, the rewards \<open>1, 0, 2\<close> and a
  decay of \<open>0.9\<close>, with a small model: the parameter is one weight \<open>w\<close>, the policy is
  uniform over two actions, the value of a state \<open>s\<close> is \<open>w * s\<close>, and a step adds one
  to the weight.
\<close>

definition scenario_model :: "(real, real) core_model" where
  "scenario_model =
     \<lparr> actor = (\<lambda>w tr states. map (\<lambda>s. [1 / 2, 1 / 2]) states),
       critic = (\<lambda>w tr states. map (\<lambda>s. w * s) states),
       step = (\<lambda>w loss_graph. w + 1),
       has_trainable_shared_layers = False \<rparr>"

definition scenario_config :: ActorCriticConfig where
  "scenario_config =
     \<lparr> num_actions = 2, reward_decay = 9 / 10, actor_train_iters = 2,
       critic_train_iters = 3, k = - 1, lam = 1 \<rparr>"

definition scenario_state :: "real model_state" where
  "scenario_state = \<lparr> params = 1, training = False \<rparr>"


text \<open>A policy that gives the second of its two actions probability zero.\<close>

definition one_sided_model :: "(real, real) core_model" where
  "one_sided_model = scenario_model\<lparr>actor := (\<lambda>w tr states. map (\<lambda>s. [1, 0]) states)\<rparr>"

text \<open>A critic loss: the mean squared error.\<close>

definition mse_loss :: "real list \<Rightarrow> real list \<Rightarrow> fval" where
  "mse_loss prediction target =
     (if prediction = [] then NaN
      else Fin (sum_list (map2 (\<lambda>x y. (x - y)\<^sup>2) prediction target) / real (length prediction)))"

text \<open>A policy whose two probabilities sum to \<open>1.2\<close>.\<close>

definition unnormalised_model :: "(real, real) core_model" where
  "unnormalised_model = scenario_model\<lparr>actor := (\<lambda>w tr states. map (\<lambda>s. [3 / 5, 3 / 5]) states)\<rparr>"

text \<open>
  A deterministic random source: its state is a counter, and it draws \<open>0.3\<close> at an even
  count and \<open>0.7\<close> at an odd one.
\<close>

definition fixed_source :: "nat np_random" where
  "fixed_source =
     \<lparr> random_sample = (\<lambda>g. (if even g then 3 / 10 else 7 / 10, Suc g)), atol = 1 / 1000 \<rparr>"

text \<open>A policy over a single action, and the configuration for it.\<close>

definition single_action_model :: "(real, real) core_model" where
  "single_action_model = scenario_model\<lparr>actor := (\<lambda>w tr states. map (\<lambda>s. [1]) states)\<rparr>"

definition single_action_config :: ActorCriticConfig where
  "single_action_config = scenario_config\<lparr>num_actions := 1\<rparr>"

section \<open>Properties\<close>

subsection \<open>Return estimates\<close>

lemma sum_list_upt_shift:
  "sum_list (map (\<lambda>i. f (t + i)) [0..<n - t]) = (\<Sum>i = t..<n. (f i :: real))"
proof (cases "t \<le> n")
  case True
  have "sum_list (map (\<lambda>i. f (t + i)) [0..<n - t]) = (\<Sum>i = 0..<n - t. f (t + i))"
    by (simp add: interv_sum_list_conv_sum_set_nat)
  also have "\<dots> = (\<Sum>i = 0..<n - t. f (i + t))"
    by (simp only: add.commute)
  also have "\<dots> = (\<Sum>i = 0 + t..<(n - t) + t. f i)"
    by (rule sum.shift_bounds_nat_ivl [symmetric])
  finally show ?thesis using True by simp
next
  case False
  then show ?thesis by simp
qed

lemma n_step_return_full:
  "n_step_return r v \<gamma> t (length r - t) = (\<Sum>i = t..<length r. \<gamma> ^ (i - t) * r ! i)"
proof -
  have "n_step_return r v \<gamma> t (length r - t)
          = sum_list (map (\<lambda>i. \<gamma> ^ (t + i - t) * r ! (t + i)) [0..<length r - t])"
  proof -
    have "length r \<le> t + (length r - t)" by arith
    then show ?thesis by (simp add: n_step_return_def)
  qed
  also have "\<dots> = (\<Sum>i = t..<length r. \<gamma> ^ (i - t) * r ! i)"
    by (rule sum_list_upt_shift [of "\<lambda>i. \<gamma> ^ (i - t) * r ! i"])
  finally show ?thesis .
qed

lemma get_lambda_returns_monte_carlo:
  assumes "length v = length r"
  shows "get_lambda_returns r v \<gamma> 1 (- 1) =
           Inr (map (\<lambda>t. \<Sum>i = t..<length r. \<gamma> ^ (i - t) * r ! i) [0..<length r])"
  using assms by (simp add: get_lambda_returns_def n_step_return_full)

text \<open>
  C1: with \<open>lam = 1\<close> and \<open>k = -1\<close>, the return estimate that
  \<^verbatim>\<open>_get_values_and_bootstrapped_returns\<close> computes for \<^verbatim>\<open>train\<close> from rewards of
  length \<open>T\<close> (and one value estimate per reward) is, at every index \<open>t\<close>, the
  Monte-Carlo return \<open>\<Sum>i = t..<T. \<gamma>^(i - t) * r[i]\<close>; and the return estimator gives the
  same output for any other value estimates of length \<open>T\<close>.
\<close>

theorem C1_monte_carlo_return:
  assumes "lam cfg = 1" and "k cfg = - 1"
    and "length (critic M (params ms) (training ms) states) = length rewards"
  shows "get_values_and_bootstrapped_returns M cfg ms states rewards =
           Inr (critic M (params ms) (training ms) states,
                map (\<lambda>t. \<Sum>i = t..<length rewards. reward_decay cfg ^ (i - t) * rewards ! i)
                  [0..<length rewards])
         \<and> (\<forall>v'. length v' = length rewards \<longrightarrow>
               get_lambda_returns rewards v' (reward_decay cfg) (lam cfg) (k cfg) =
               get_lambda_returns rewards (critic M (params ms) (training ms) states)
                 (reward_decay cfg) (lam cfg) (k cfg))"
  using assms
  by (simp add: get_values_and_bootstrapped_returns_def get_lambda_returns_monte_carlo)

theorem C1_monte_carlo_return_witness:
  "lam scenario_config = 1 \<and> k scenario_config = - 1
   \<and> length (critic scenario_model (params scenario_state) (training scenario_state) [0, 1, 2])
       = length [1, 0, 2 :: real]
   \<and> get_values_and_bootstrapped_returns scenario_model scenario_config scenario_state
        [0, 1, 2] [1, 0, 2]
       = Inr ([0, 1, 2], [131 / 50, 9 / 5, 2])"
proof -
  have h1: "lam scenario_config = 1" and h2: "k scenario_config = - 1"
    by (simp_all add: scenario_config_def)
  have h3: "length (critic scenario_model (params scenario_state) (training scenario_state) [0, 1, 2])
              = length [1, 0, 2 :: real]"
    by (simp add: scenario_model_def)
  have mc: "map (\<lambda>t. \<Sum>i = t..<length [1, 0, 2 :: real].
                  reward_decay scenario_config ^ (i - t) * [1, 0, 2 :: real] ! i)
              [0..<length [1, 0, 2 :: real]] = [131 / 50, 9 / 5, 2]"
    by (simp add: scenario_config_def upt_conv_Cons sum.atLeast_Suc_lessThan power2_eq_square)
  have sv: "critic scenario_model (params scenario_state) (training scenario_state) [0, 1, 2]
              = [0, 1, 2]"
    by (simp add: scenario_model_def scenario_state_def)
  from C1_monte_carlo_return [OF h1 h2 h3]
  have "get_values_and_bootstrapped_returns scenario_model scenario_config scenario_state
          [0, 1, 2] [1, 0, 2] = Inr ([0, 1, 2], [131 / 50, 9 / 5, 2])"
    unfolding mc sv by simp
  with h1 h2 h3 show ?thesis by simp
qed

subsection \<open>The loops of train\<close>

lemma gather_taken_fit:
  assumes "rows_fit probs actions"
  shows "gather_taken probs actions =
           Inr (map (\<lambda>t. probs ! t ! nat (actions ! t)) [0..<length actions])"
proof -
  have len: "length probs = length actions"
    using assms by (simp add: rows_fit_def list_all2_lengthD)
  have inb: "\<And>t. t < length actions \<Longrightarrow>
               0 \<le> actions ! t \<and> actions ! t < int (length (probs ! t))"
    using assms by (simp add: rows_fit_def list_all2_conv_all_nth)
  have "\<not> list_ex (\<lambda>(row, a). a < 0 \<or> int (length row) \<le> a) (zip probs actions)"
  proof
    assume "list_ex (\<lambda>(row, a). a < 0 \<or> int (length row) \<le> a) (zip probs actions)"
    then obtain row a where "(row, a) \<in> set (zip probs actions)"
      and bad: "a < 0 \<or> int (length row) \<le> a"
      by (auto simp: list_ex_iff)
    then obtain t where "t < length actions" "row = probs ! t" "a = actions ! t"
      by (auto simp: in_set_zip)
    with inb [of t] bad show False by auto
  qed
  moreover have "map (\<lambda>(row, a). row ! nat a) (zip probs actions)
                 = map (\<lambda>t. probs ! t ! nat (actions ! t)) [0..<length actions]"
    using len by (intro nth_equalityI) simp_all
  ultimately show ?thesis using len by (simp add: gather_taken_def)
qed

lemma actor_loss_fit:
  assumes "rows_fit probs actions" and "length advantages = length actions"
  shows "actor_loss probs actions advantages = Inr (spec_policy_loss probs actions advantages)"
proof -
  have "map2 fmul (map torch_log (map (\<lambda>t. probs ! t ! nat (actions ! t)) [0..<length actions]))
          advantages
        = map (\<lambda>t. fmul (torch_log (probs ! t ! nat (actions ! t))) (advantages ! t))
            [0..<length actions]"
    using assms(2) by (intro nth_equalityI) simp_all
  then show ?thesis
    using assms
    by (simp add: actor_loss_def gather_taken_fit tensor_binop_def spec_policy_loss_def)
qed

lemma actor_loop_steps:
  assumes "\<forall>i<n. \<exists>l. actor_loss (actor M (policy_params M ms states actions adv i)
                       (training ms) states) actions adv = Inr l"
  shows "actor_loop M states actions adv n ms =
           (Inr (),
            ms\<lparr>params := policy_params M ms states actions adv n\<rparr>,
            map (\<lambda>i. projr (actor_loss (actor M (policy_params M ms states actions adv i)
                       (training ms) states) actions adv)) [0..<n])"
  using assms unfolding policy_params_def
proof (induction n arbitrary: ms)
  case 0
  then show ?case by simp
next
  case (Suc n)
  let ?f = "policy_step M (training ms) states actions adv"
  let ?ms = "ms\<lparr>params := ?f (params ms)\<rparr>"
  from Suc.prems obtain l
    where l: "actor_loss (actor M (params ms) (training ms) states) actions adv = Inr l"
    by force
  have "\<forall>i<n. \<exists>l. actor_loss
                    (actor M ((policy_step M (training ?ms) states actions adv ^^ i) (params ?ms))
                       (training ?ms) states) actions adv = Inr l"
  proof (intro allI impI)
    fix i assume "i < n"
    then have "Suc i < Suc n" by simp
    with Suc.prems
    have "\<exists>l. actor_loss (actor M ((?f ^^ Suc i) (params ms)) (training ms) states) actions adv
               = Inr l"
      by blast
    then show "\<exists>l. actor_loss
                     (actor M ((policy_step M (training ?ms) states actions adv ^^ i) (params ?ms))
                        (training ?ms) states) actions adv = Inr l"
      by (simp add: funpow_swap1)
  qed
  from Suc.IH [OF this]
  have IH: "actor_loop M states actions adv n ?ms =
     (Inr (), ms\<lparr>params := (?f ^^ Suc n) (params ms)\<rparr>,
      map (\<lambda>i. projr (actor_loss (actor M ((?f ^^ Suc i) (params ms)) (training ms) states)
                        actions adv)) [0..<n])"
    by (simp add: funpow_swap1)
  have "map (\<lambda>i. projr (actor_loss (actor M ((?f ^^ i) (params ms)) (training ms) states)
                         actions adv)) [0..<Suc n]
        = l # map (\<lambda>i. projr (actor_loss (actor M ((?f ^^ Suc i) (params ms)) (training ms) states)
                               actions adv)) [0..<n]"
    using l by (simp only: map_upt_Suc) simp
  moreover
  have "step M (params ms) (\<lambda>q'. actor_loss (actor M q' (training ms) states) actions adv)
        = ?f (params ms)"
    by (simp add: policy_step_def)
  moreover have "(?f ^^ Suc n) (params ms) = (?f ^^ n) (?f (params ms))"
    by (simp add: funpow_swap1)
  ultimately show ?case
    using l IH by (simp del: upt_Suc funpow.simps)
qed

lemma actor_loop_fit:
  assumes "\<forall>i<n. rows_fit (actor M (policy_params M ms states actions adv i) (training ms) states)
                     actions"
    and "length adv = length actions"
  shows "actor_loop M states actions adv n ms =
           (Inr (),
            ms\<lparr>params := policy_params M ms states actions adv n\<rparr>,
            map (\<lambda>i. spec_policy_loss
                       (actor M (policy_params M ms states actions adv i) (training ms) states)
                       actions adv) [0..<n])"
proof -
  let ?p = "policy_params M ms states actions adv"
  have loss: "actor_loss (actor M (?p i) (training ms) states) actions adv
              = Inr (spec_policy_loss (actor M (?p i) (training ms) states) actions adv)"
    if "i < n" for i
    using that assms by (simp add: actor_loss_fit)
  then have "\<forall>i<n. \<exists>l. actor_loss (actor M (?p i) (training ms) states) actions adv = Inr l"
    by blast
  from actor_loop_steps [OF this]
  have "actor_loop M states actions adv n ms =
          (Inr (), ms\<lparr>params := ?p n\<rparr>,
           map (\<lambda>i. projr (actor_loss (actor M (?p i) (training ms) states) actions adv)) [0..<n])" .
  moreover
  have "map (\<lambda>i. projr (actor_loss (actor M (?p i) (training ms) states) actions adv)) [0..<n]
        = map (\<lambda>i. spec_policy_loss (actor M (?p i) (training ms) states) actions adv) [0..<n]"
    using loss by simp
  ultimately show ?thesis by simp
qed

lemma critic_loop_steps:
  "critic_loop M (Some clf) states G n ms =
     (Inr (),
      ms\<lparr>params := value_params M clf ms states G (params ms) n\<rparr>,
      map (\<lambda>j. clf (critic M (value_params M clf ms states G (params ms) j) (training ms) states) G)
        [0..<n])"
  unfolding value_params_def
proof (induction n arbitrary: ms)
  case 0
  then show ?case by simp
next
  case (Suc n)
  let ?f = "value_step M clf (training ms) states G"
  let ?ms = "ms\<lparr>params := ?f (params ms)\<rparr>"
  have IH: "critic_loop M (Some clf) states G n ?ms =
     (Inr (), ms\<lparr>params := (?f ^^ Suc n) (params ms)\<rparr>,
      map (\<lambda>j. clf (critic M ((?f ^^ Suc j) (params ms)) (training ms) states) G) [0..<n])"
    using Suc.IH [of ?ms] by (simp add: funpow_swap1)
  have "map (\<lambda>j. clf (critic M ((?f ^^ j) (params ms)) (training ms) states) G) [0..<Suc n]
        = clf (critic M (params ms) (training ms) states) G
          # map (\<lambda>j. clf (critic M ((?f ^^ Suc j) (params ms)) (training ms) states) G) [0..<n]"
    by (simp only: map_upt_Suc) simp
  moreover have "step M (params ms) (\<lambda>q. Inr (clf (critic M q (training ms) states) G))
                 = ?f (params ms)"
    by (simp add: value_step_def)
  moreover have "(?f ^^ Suc n) (params ms) = (?f ^^ n) (?f (params ms))"
    by (simp add: funpow_swap1)
  ultimately show ?case
    using IH by (simp del: upt_Suc funpow.simps)
qed

lemma train_separate_layers:
  assumes "\<not> has_trainable_shared_layers M"
    and "get_values_and_bootstrapped_returns M cfg ms states rewards = Inr (sv, G)"
    and "tensor_sub G sv = Inr adv"
    and "length adv = length actions"
    and "\<forall>i < nat (actor_train_iters cfg).
           rows_fit (actor M (policy_params M ms states actions adv i) (training ms) states) actions"
  shows "train M cfg (Some clf) states actions rewards ms =
           (Inr (),
            ms\<lparr>params := value_params M clf ms states G
                            (policy_params M ms states actions adv (nat (actor_train_iters cfg)))
                            (nat (critic_train_iters cfg))\<rparr>,
            map (\<lambda>i. spec_policy_loss
                       (actor M (policy_params M ms states actions adv i) (training ms) states)
                       actions adv)
              [0..<nat (actor_train_iters cfg)]
            @ map (\<lambda>j. clf (critic M (value_params M clf ms states G
                                        (policy_params M ms states actions adv
                                           (nat (actor_train_iters cfg))) j)
                             (training ms) states) G)
                [0..<nat (critic_train_iters cfg)])"
  using assms(1-3) actor_loop_fit [OF assms(5) assms(4)]
  by (simp add: train_def critic_loop_steps value_params_def)

subsection \<open>The concrete trajectory\<close>

lemma scenario_returns:
  assumes "critic M = critic scenario_model"
  shows "get_values_and_bootstrapped_returns M scenario_config ms [0, 1, 2] [1, 0, 2]
           = Inr ([0, params ms, 2 * params ms], [131 / 50, 9 / 5, 2])"
  using assms
  by (simp add: get_values_and_bootstrapped_returns_def get_lambda_returns_def n_step_return_def
      scenario_model_def scenario_config_def upt_conv_Cons power2_eq_square)

lemma scenario_advantages:
  "tensor_sub [131 / 50, 9 / 5, 2] [0, 1, 2] = Inr [131 / 50, 4 / 5, 0]"
  by (simp add: tensor_sub_def tensor_binop_def)

lemma scenario_iterations:
  "nat (actor_train_iters scenario_config) = Suc (Suc 0)"
  "nat (critic_train_iters scenario_config) = Suc (Suc (Suc 0))"
  by (simp_all add: scenario_config_def)

lemma scenario_steps:
  assumes "step M = step scenario_model"
  shows "policy_params M ms st ac ad i = params ms + real i"
    and "value_params M clf ms st G p j = p + real j"
proof -
  have "policy_step M tr st ac ad = (\<lambda>w. w + 1)" for tr
    using assms by (intro ext) (simp add: policy_step_def scenario_model_def)
  then show "policy_params M ms st ac ad i = params ms + real i"
    unfolding policy_params_def by (induction i) simp_all
  have "value_step M clf tr st G = (\<lambda>w. w + 1)" for tr
    using assms by (intro ext) (simp add: value_step_def scenario_model_def)
  then show "value_params M clf ms st G p j = p + real j"
    unfolding value_params_def by (induction j) simp_all
qed

subsection \<open>The policy update\<close>




subsection \<open>The value update\<close>




text \<open>
  With the attribute unbound, a call that reaches the value loop with a positive
  \<open>critic_train_iters\<close> raises \<^verbatim>\<open>AttributeError\<close> after the policy steps and before
  any value step.
\<close>

lemma train_loss_function_unbound:
  assumes "\<not> has_trainable_shared_layers M"
    and "get_values_and_bootstrapped_returns M cfg ms states rewards = Inr (sv, G)"
    and "tensor_sub G sv = Inr adv"
    and "actor_loop M states actions adv (nat (actor_train_iters cfg)) ms = (Inr u, ms1, losses1)"
    and "0 < critic_train_iters cfg"
  shows "train M cfg None states actions rewards ms = (Inl AttributeError, ms1, losses1)"
proof -
  from assms(5) obtain n where "nat (critic_train_iters cfg) = Suc n"
    by (cases "nat (critic_train_iters cfg)") auto
  with assms(1-4) show ?thesis by (simp add: train_def)
qed

subsection \<open>The logarithm of a zero probability\<close>

lemma fadd_Fin_D:
  "fadd a b = Fin x \<Longrightarrow> (\<exists>a'. a = Fin a') \<and> (\<exists>b'. b = Fin b')"
  by (cases a; cases b) simp_all

lemma foldl_fadd_acc_not_Fin:
  "\<forall>x. acc \<noteq> Fin x \<Longrightarrow> foldl fadd acc xs \<noteq> Fin y"
proof (induction xs arbitrary: acc)
  case Nil
  then show ?case by simp
next
  case (Cons a xs)
  have "\<forall>x. fadd acc a \<noteq> Fin x"
    using Cons.prems fadd_Fin_D by blast
  then show ?case using Cons.IH by simp
qed

lemma foldl_fadd_elem_not_Fin:
  "z \<in> set xs \<Longrightarrow> \<forall>x. z \<noteq> Fin x \<Longrightarrow> foldl fadd acc xs \<noteq> Fin y"
proof (induction xs arbitrary: acc)
  case Nil
  then show ?case by simp
next
  case (Cons a xs)
  show ?case
  proof (cases "z = a")
    case True
    then have "\<forall>x. fadd acc a \<noteq> Fin x"
      using Cons.prems(2) fadd_Fin_D by blast
    then show ?thesis by (simp add: foldl_fadd_acc_not_Fin)
  next
    case False
    with Cons.prems have "z \<in> set xs" by simp
    then show ?thesis using Cons.IH Cons.prems(2) by simp
  qed
qed

lemma fmean_not_Fin:
  assumes "z \<in> set xs" and "\<forall>x. z \<noteq> Fin x"
  shows "fmean xs \<noteq> Fin y"
proof -
  have "\<forall>w. foldl fadd (Fin 0) xs \<noteq> Fin w"
    using assms foldl_fadd_elem_not_Fin by blast
  then have "fdiv_count (foldl fadd (Fin 0) xs) n \<noteq> Fin y" for n
    by (cases "foldl fadd (Fin 0) xs") simp_all
  then show ?thesis by (simp add: fmean_def)
qed

lemma fneg_not_Fin: "\<forall>y. v \<noteq> Fin y \<Longrightarrow> fneg v \<noteq> Fin x"
  by (cases v) simp_all

lemma one_sided_loss:
  "spec_policy_loss [[1, 0], [1, 0], [1, 0]] [0, 1, 0] [131 / 50, 4 / 5, 0] = PInf"
  by (simp add: spec_policy_loss_def torch_log_def fmean_def upt_conv_Cons)

text \<open>
  C7 (as stated: a zero probability of the taken action is clamped or raises an error,
  and the logarithm is never applied to zero). With a policy that gives the action taken
  at the second step probability zero, \<^verbatim>\<open>train\<close> raises nothing: both policy
  iterations take the logarithm of that zero, and the loss handed to \<^verbatim>\<open>step\<close> is
  infinite each time.
\<close>

theorem C7_zero_probability_reaches_log:
  "train one_sided_model scenario_config (Some mse_loss) [0, 1, 2] [0, 1, 0] [1, 0, 2] scenario_state
     = (Inr (), \<lparr>params = 6, training = False\<rparr>,
        [PInf, PInf,
         mse_loss [0, 3, 6] [131 / 50, 9 / 5, 2],
         mse_loss [0, 4, 8] [131 / 50, 9 / 5, 2],
         mse_loss [0, 5, 10] [131 / 50, 9 / 5, 2]])"
proof -
  have st: "step one_sided_model = step scenario_model"
    by (simp add: one_sided_model_def)
  have act: "actor one_sided_model w tr [0, 1, 2] = [[1, 0], [1, 0], [1, 0]]" for w tr
    by (simp add: one_sided_model_def)
  have crit: "critic one_sided_model w tr [0, 1, 2] = [0, w, 2 * w]" for w tr
    by (simp add: one_sided_model_def scenario_model_def)
  have a: "\<not> has_trainable_shared_layers one_sided_model"
    by (simp add: one_sided_model_def scenario_model_def)
  have "critic one_sided_model = critic scenario_model"
    by (simp add: one_sided_model_def)
  from scenario_returns [OF this, of scenario_state]
  have b: "get_values_and_bootstrapped_returns one_sided_model scenario_config scenario_state
             [0, 1, 2] [1, 0, 2] = Inr ([0, 1, 2], [131 / 50, 9 / 5, 2])"
    by (simp add: scenario_state_def)
  have d: "length [131 / 50, 4 / 5, 0 :: real] = length [0, 1, 0 :: int]" by simp
  have e: "\<forall>i < nat (actor_train_iters scenario_config).
             rows_fit (actor one_sided_model
                         (policy_params one_sided_model scenario_state [0, 1, 2] [0, 1, 0]
                            [131 / 50, 4 / 5, 0] i)
                         (training scenario_state) [0, 1, 2]) [0, 1, 0]"
    by (simp add: act rows_fit_def)
  show ?thesis
    unfolding train_separate_layers [OF a b scenario_advantages d e]
    by (simp add: scenario_steps [OF st] act crit one_sided_loss scenario_iterations
        scenario_state_def upt_conv_Cons)
qed

text \<open>
  C7 (amended): in every policy-update iteration the logarithm is applied to the taken
  action's probability as the model returned it, with no clamp and no error. When that
  probability is exactly zero at some step, its logarithm is \<open>-inf\<close>, the loss of the
  iteration is not finite (infinite or \<open>nan\<close>), and the iteration completes: the loss is
  handed to \<^verbatim>\<open>step\<close> and the parameters are updated with it.
\<close>

theorem C7_log_applied_unguarded:
  assumes "rows_fit (actor M (params ms) (training ms) states) actions"
    and "length advantages = length actions"
    and "t < length actions"
    and "actor M (params ms) (training ms) states ! t ! nat (actions ! t) = 0"
  shows "torch_log (actor M (params ms) (training ms) states ! t ! nat (actions ! t)) = NInf
         \<and> (\<exists>loss. (\<forall>x. loss \<noteq> Fin x)
               \<and> actor_loss (actor M (params ms) (training ms) states) actions advantages = Inr loss
               \<and> actor_loop M states actions advantages (Suc 0) ms =
                   (Inr (),
                    ms\<lparr>params := step M (params ms)
                         (\<lambda>q. actor_loss (actor M q (training ms) states) actions advantages)\<rparr>,
                    [loss]))"
proof -
  let ?probs = "actor M (params ms) (training ms) states"
  let ?terms = "map (\<lambda>t. fmul (torch_log (?probs ! t ! nat (actions ! t))) (advantages ! t))
                  [0..<length actions]"
  have lg: "torch_log (?probs ! t ! nat (actions ! t)) = NInf"
    using assms(4) by (simp add: torch_log_def)
  have "fmul NInf (advantages ! t) \<in> set ?terms"
    using assms(3) lg by (auto simp: image_iff intro!: bexI [of _ t])
  then have "fmean ?terms \<noteq> Fin y" for y
    by (rule fmean_not_Fin) simp
  then have nf: "\<forall>x. fneg (fmean ?terms) \<noteq> Fin x"
    by (simp add: fneg_not_Fin)
  have loss: "actor_loss ?probs actions advantages = Inr (fneg (fmean ?terms))"
    using actor_loss_fit [OF assms(1,2)] by (simp add: spec_policy_loss_def)
  then have "actor_loop M states actions advantages (Suc 0) ms =
               (Inr (),
                ms\<lparr>params := step M (params ms)
                     (\<lambda>q. actor_loss (actor M q (training ms) states) actions advantages)\<rparr>,
                [fneg (fmean ?terms)])"
    by simp
  with lg nf loss show ?thesis by blast
qed

theorem C7_log_applied_unguarded_witness:
  "rows_fit (actor one_sided_model (params scenario_state) (training scenario_state) [0, 1, 2])
     [0, 1, 0]
   \<and> actor one_sided_model (params scenario_state) (training scenario_state) [0, 1, 2]
        ! 1 ! nat ([0, 1, 0] ! 1) = 0
   \<and> actor_loop one_sided_model [0, 1, 2] [0, 1, 0] [131 / 50, 4 / 5, 0] (Suc 0) scenario_state
       = (Inr (), \<lparr>params = 2, training = False\<rparr>, [PInf])"
proof -
  have act: "actor one_sided_model w tr [0, 1, 2] = [[1, 0], [1, 0], [1, 0]]" for w tr
    by (simp add: one_sided_model_def)
  have a: "rows_fit (actor one_sided_model (params scenario_state) (training scenario_state)
                       [0, 1, 2]) [0, 1, 0]"
    by (simp add: act rows_fit_def)
  have b: "length [131 / 50, 4 / 5, 0 :: real] = length [0, 1, 0 :: int]" by simp
  have c: "(1 :: nat) < length [0, 1, 0 :: int]" by simp
  have d: "actor one_sided_model (params scenario_state) (training scenario_state) [0, 1, 2]
             ! 1 ! nat ([0, 1, 0] ! 1) = 0"
    by (simp add: act)
  have l: "actor_loss [[1, 0], [1, 0], [1, 0]] [0, 1, 0] [131 / 50, 4 / 5, 0] = Inr PInf"
    using actor_loss_fit [of "[[1, 0], [1, 0], [1, 0]]" "[0, 1, 0]" "[131 / 50, 4 / 5, 0]"]
    by (simp add: rows_fit_def one_sided_loss)
  from C7_log_applied_unguarded [OF a b c d]
  have "actor_loop one_sided_model [0, 1, 2] [0, 1, 0] [131 / 50, 4 / 5, 0] (Suc 0) scenario_state
       = (Inr (), \<lparr>params = 2, training = False\<rparr>, [PInf])"
    by (auto simp: act l one_sided_model_def scenario_model_def scenario_state_def)
  with a d show ?thesis by simp
qed

subsection \<open>Sampling an action\<close>

lemma length_cumsum_from [simp]: "length (cumsum_from acc xs) = length xs"
  by (induction xs arbitrary: acc) simp_all

lemma cumsum_from_nth:
  "i < length xs \<Longrightarrow> cumsum_from acc xs ! i = acc + sum_list (take (Suc i) xs)"
proof (induction xs arbitrary: acc i)
  case Nil
  then show ?case by simp
next
  case (Cons x xs)
  then show ?case by (cases i) (simp_all add: add.assoc)
qed

lemma length_cumsum [simp]: "length (cumsum xs) = length xs"
  by (simp add: cumsum_def)

lemma cumsum_nth: "i < length xs \<Longrightarrow> cumsum xs ! i = sum_list (take (Suc i) xs)"
  by (simp add: cumsum_def cumsum_from_nth)

lemma last_cumsum: "xs \<noteq> [] \<Longrightarrow> last (cumsum xs) = sum_list xs"
proof -
  assume ne: "xs \<noteq> []"
  then have "cumsum xs \<noteq> []" by (cases xs) (simp_all add: cumsum_def)
  then have "last (cumsum xs) = cumsum xs ! (length xs - 1)"
    by (simp add: last_conv_nth cumsum_def)
  also have "\<dots> = sum_list (take (Suc (length xs - 1)) xs)"
    using ne by (intro cumsum_nth) simp
  finally show ?thesis using ne by simp
qed

lemma sum_list_take_mono:
  assumes "\<forall>x \<in> set xs. 0 \<le> (x :: real)" and "i \<le> j"
  shows "sum_list (take i xs) \<le> sum_list (take j xs)"
proof -
  have "take j xs = take i xs @ take (j - i) (drop i xs)"
    using assms(2) by (metis le_add_diff_inverse take_add)
  moreover have "0 \<le> sum_list (take (j - i) (drop i xs))"
    using assms(1) by (intro sum_list_nonneg) (auto dest: in_set_takeD in_set_dropD)
  ultimately show ?thesis by simp
qed

lemma count_le_sorted:
  assumes "sorted ys"
  shows "(\<forall>i < length (filter (\<lambda>c. c \<le> u) ys). ys ! i \<le> (u :: real))
         \<and> (\<forall>i. length (filter (\<lambda>c. c \<le> u) ys) \<le> i \<and> i < length ys \<longrightarrow> u < ys ! i)"
  using assms
proof (induction ys)
  case Nil
  then show ?case by simp
next
  case (Cons y ys)
  show ?case
  proof (cases "y \<le> u")
    case True
    with Cons show ?thesis
      by (auto simp: nth_Cons split: nat.splits)
  next
    case False
    with Cons.prems have "\<forall>c \<in> set ys. \<not> c \<le> u" by auto
    then have "filter (\<lambda>c. c \<le> u) ys = []" by (simp add: filter_empty_conv)
    moreover have "u < ys ! j" if "j < length ys" for j
    proof -
      from that have "ys ! j \<in> set ys" by simp
      with Cons.prems have "y \<le> ys ! j" by simp
      with False show ?thesis by simp
    qed
    ultimately show ?thesis
      using False by (auto simp: nth_Cons split: nat.splits)
  qed
qed


lemma searchsorted_bracket:
  assumes nonneg: "\<forall>x \<in> set xs. 0 \<le> x" and pos: "0 < sum_list xs"
    and u: "0 \<le> u" "u < 1"
  defines "a \<equiv> searchsorted_right (map (\<lambda>c. c / last (cumsum xs)) (cumsum xs)) u"
  shows "a < length xs"
    and "sum_list (take a xs) \<le> u * sum_list xs"
    and "u * sum_list xs < sum_list (take (Suc a) xs)"
proof -
  let ?S = "sum_list xs"
  let ?cdf = "map (\<lambda>c. c / last (cumsum xs)) (cumsum xs)"
  have ne: "xs \<noteq> []" using pos by auto
  have last: "last (cumsum xs) = ?S" using ne by (rule last_cumsum)
  have len: "length ?cdf = length xs" by simp
  have nth: "?cdf ! i = sum_list (take (Suc i) xs) / ?S" if "i < length xs" for i
    using that by (simp add: last cumsum_nth)
  have "sorted ?cdf"
  proof (subst sorted_iff_nth_mono, intro allI impI)
    fix i j assume ij: "i \<le> j" "j < length ?cdf"
    then have "sum_list (take (Suc i) xs) \<le> sum_list (take (Suc j) xs)"
      using nonneg by (intro sum_list_take_mono) simp_all
    then have "sum_list (take (Suc i) xs) / ?S \<le> sum_list (take (Suc j) xs) / ?S"
      using pos by (simp add: divide_right_mono)
    moreover have "i < length xs" "j < length xs" using ij len by simp_all
    ultimately show "?cdf ! i \<le> ?cdf ! j"
      by (simp only: nth)
  qed
  from count_le_sorted [OF this, of u]
  have below: "\<And>i. i < a \<Longrightarrow> ?cdf ! i \<le> u"
    and above: "\<And>i. a \<le> i \<Longrightarrow> i < length xs \<Longrightarrow> u < ?cdf ! i"
    unfolding a_def searchsorted_right_def len by blast+
  have a_le: "a \<le> length xs"
    unfolding a_def searchsorted_right_def using length_filter_le [of _ ?cdf] len by simp
  have "?cdf ! (length xs - 1) = sum_list (take (Suc (length xs - 1)) xs) / ?S"
    using ne by (intro nth) simp
  then have top: "?cdf ! (length xs - 1) = 1"
    using ne pos by simp
  show lt: "a < length xs"
  proof (rule ccontr)
    assume "\<not> a < length xs"
    with a_le have "a = length xs" by simp
    with ne have "length xs - 1 < a" by (cases xs) simp_all
    from below [OF this] top u show False by simp
  qed
  from above [OF le_refl lt] have "u < sum_list (take (Suc a) xs) / ?S"
    by (simp only: nth [OF lt])
  then show "u * ?S < sum_list (take (Suc a) xs)"
    using pos by (simp add: pos_less_divide_eq)
  show "sum_list (take a xs) \<le> u * ?S"
  proof (cases a)
    case 0
    then show ?thesis using u pos by simp
  next
    case (Suc b)
    then have "b < a" by simp
    moreover from this lt have "b < length xs" by simp
    ultimately have "sum_list (take (Suc b) xs) / ?S \<le> u"
      using below [of b] by (simp only: nth)
    then show ?thesis using pos Suc by (simp add: pos_divide_le_eq)
  qed
qed

lemma squeeze_single:
  "squeeze [row] = (if length row = 1 then Arr0 (hd row) else Arr1 row)"
proof (cases row)
  case Nil
  then show ?thesis by simp
next
  case (Cons x xs)
  then show ?thesis by (cases xs) simp_all
qed

lemma np_random_choice_invalid:
  assumes "(\<exists>x \<in> set row. x < 0) \<or> atol R < \<bar>sum_list row - 1\<bar>"
  shows "np_random_choice R a (squeeze [row]) g =
           (Inl (if length row = 1 \<and> 0 < a then TypeError else ValueError), g)"
  using assms
  by (auto simp: np_random_choice_def squeeze_single list_ex_iff)

lemma np_random_choice_valid:
  assumes "int (length row) = a" and "length row \<noteq> 1"
    and "\<forall>x \<in> set row. 0 \<le> x" and "\<bar>sum_list row - 1\<bar> \<le> atol R" and "atol R < 1"
    and "random_sample R g = (u, g')" and "0 \<le> u" and "u < 1"
  shows "\<exists>i. np_random_choice R a (squeeze [row]) g = (Inr i, g')
             \<and> i < length row
             \<and> sum_list (take i row) \<le> u * sum_list row
             \<and> u * sum_list row < sum_list (take (Suc i) row)"
proof -
  let ?i = "searchsorted_right (map (\<lambda>c. c / last (cumsum row)) (cumsum row)) u"
  have pos: "0 < sum_list row" using assms(4,5) by linarith
  then have "row \<noteq> []" by auto
  then have a: "0 < a" using assms(1) by (cases row) auto
  have "\<not> list_ex (\<lambda>x. x < 0) row"
    using assms(3) by (auto simp: list_ex_iff)
  then have "np_random_choice R a (squeeze [row]) g = (Inr ?i, g')"
    using assms(1,2,4,6) a
    by (simp add: np_random_choice_def squeeze_single Let_def)
  moreover note searchsorted_bracket [OF assms(3) pos assms(7,8)]
  ultimately show ?thesis by blast
qed

text \<open>
  What \<^verbatim>\<open>choose_action\<close> does for one state. It leaves the parameters as they
  are and the model in inference mode, and the probabilities it samples from are those
  of the forward pass in that mode. When the policy returns one row for the state and
  the row has a negative entry or a sum further than \<open>atol\<close> from one, the call fails
  and draws nothing from the generator. When the row has \<open>num_actions\<close> entries, more
  than one, none negative, and a sum within \<open>atol\<close> of one, the call returns the index
  \<open>a\<close> at which the cumulative probability passes the uniform draw \<open>u\<close>: each index is
  returned on an interval of \<open>u\<close> whose length is its share of the total probability.
\<close>

lemma choose_action_outcomes:
  "fst (snd (choose_action M cfg R state eps ms g)) = ms\<lparr>training := False\<rparr>
   \<and> fst (choose_action M cfg R state eps ms g)
       = fst (np_random_choice R (num_actions cfg) (squeeze (actor M (params ms) False [state])) g)
   \<and> (\<forall>row. actor M (params ms) False [state] = [row]
          \<and> ((\<exists>x \<in> set row. x < 0) \<or> atol R < \<bar>sum_list row - 1\<bar>)
        \<longrightarrow> choose_action M cfg R state eps ms g
              = (Inl (if length row = 1 \<and> 0 < num_actions cfg then TypeError else ValueError),
                 ms\<lparr>training := False\<rparr>, g))
   \<and> (\<forall>row u g'. actor M (params ms) False [state] = [row]
          \<and> int (length row) = num_actions cfg \<and> length row \<noteq> 1
          \<and> (\<forall>x \<in> set row. 0 \<le> x) \<and> \<bar>sum_list row - 1\<bar> \<le> atol R \<and> atol R < 1
          \<and> random_sample R g = (u, g') \<and> 0 \<le> u \<and> u < 1
        \<longrightarrow> (\<exists>a. choose_action M cfg R state eps ms g = (Inr a, ms\<lparr>training := False\<rparr>, g')
                 \<and> a < length row
                 \<and> sum_list (take a row) \<le> u * sum_list row
                 \<and> u * sum_list row < sum_list (take (Suc a) row)))"
proof (intro conjI allI impI)
  show "fst (snd (choose_action M cfg R state eps ms g)) = ms\<lparr>training := False\<rparr>"
    by (simp add: choose_action_def Let_def split: prod.splits)
  show "fst (choose_action M cfg R state eps ms g)
       = fst (np_random_choice R (num_actions cfg) (squeeze (actor M (params ms) False [state])) g)"
    by (simp add: choose_action_def Let_def split: prod.splits)
next
  fix row
  assume "actor M (params ms) False [state] = [row]
          \<and> ((\<exists>x \<in> set row. x < 0) \<or> atol R < \<bar>sum_list row - 1\<bar>)"
  then show "choose_action M cfg R state eps ms g
              = (Inl (if length row = 1 \<and> 0 < num_actions cfg then TypeError else ValueError),
                 ms\<lparr>training := False\<rparr>, g)"
    using np_random_choice_invalid [of row R "num_actions cfg" g]
    by (simp add: choose_action_def Let_def)
next
  fix row u g'
  assume h: "actor M (params ms) False [state] = [row]
          \<and> int (length row) = num_actions cfg \<and> length row \<noteq> 1
          \<and> (\<forall>x \<in> set row. 0 \<le> x) \<and> \<bar>sum_list row - 1\<bar> \<le> atol R \<and> atol R < 1
          \<and> random_sample R g = (u, g') \<and> 0 \<le> u \<and> u < 1"
  then obtain i where "np_random_choice R (num_actions cfg) (squeeze [row]) g = (Inr i, g')"
    and "i < length row" and "sum_list (take i row) \<le> u * sum_list row"
    and "u * sum_list row < sum_list (take (Suc i) row)"
    using np_random_choice_valid [of row "num_actions cfg" R g u g'] by blast
  with h show "\<exists>a. choose_action M cfg R state eps ms g = (Inr a, ms\<lparr>training := False\<rparr>, g')
                 \<and> a < length row
                 \<and> sum_list (take a row) \<le> u * sum_list row
                 \<and> u * sum_list row < sum_list (take (Suc a) row)"
    by (simp add: choose_action_def Let_def)
qed

lemma choose_action_uniform_policy:
  "choose_action scenario_model scenario_config fixed_source 0 None scenario_state 0
     = (Inr 0, scenario_state, Suc 0)"
  "choose_action scenario_model scenario_config fixed_source 0 None scenario_state (Suc 0)
     = (Inr 1, scenario_state, Suc (Suc 0))"
  by (simp_all add: choose_action_def np_random_choice_def scenario_model_def scenario_config_def
      fixed_source_def scenario_state_def cumsum_def searchsorted_right_def Let_def)

lemma choose_action_unnormalised_policy:
  "choose_action unnormalised_model scenario_config fixed_source 0 None scenario_state 0
     = (Inl ValueError, scenario_state, 0)"
  by (simp add: choose_action_def np_random_choice_def unnormalised_model_def scenario_model_def
      scenario_config_def fixed_source_def scenario_state_def Let_def)

text \<open>
  C5: the claim has \<^verbatim>\<open>choose_action\<close> sample one action from the distribution of
  every state. For a policy over a single action the forward pass returns the one row
  \<open>[1]\<close>, a valid distribution; \<^verbatim>\<open>squeeze()\<close> drops both axes instead of leaving the
  shape \<^verbatim>\<open>(num_actions,)\<close> of the comment at line 72, and
  \<^verbatim>\<open>np.random.choice\<close> raises \<^verbatim>\<open>TypeError\<close> on the zero-dimensional array.
\<close>

theorem C5_single_action_fails:
  "actor single_action_model (params scenario_state) False [0] = [[1]]
   \<and> num_actions single_action_config = 1
   \<and> choose_action single_action_model single_action_config fixed_source 0 None scenario_state 0
       = (Inl TypeError, scenario_state, 0)"
  by (simp add: choose_action_def np_random_choice_def single_action_model_def
      single_action_config_def scenario_model_def scenario_config_def scenario_state_def Let_def)

text \<open>
  C9: a call of \<^verbatim>\<open>choose_action\<close> leaves the parameters unchanged; a second call for
  the same state, on the model state the first call left and with the random source in
  the state it had before the first call, has the same outcome; and so has a call on any
  model state with the same parameters.
\<close>

theorem C9_choose_action_deterministic:
  "params (fst (snd (choose_action M cfg R state eps ms g))) = params ms
   \<and> fst (choose_action M cfg R state eps (fst (snd (choose_action M cfg R state eps ms g))) g)
       = fst (choose_action M cfg R state eps ms g)
   \<and> (\<forall>ms'. params ms' = params ms \<longrightarrow>
         fst (choose_action M cfg R state eps ms' g) = fst (choose_action M cfg R state eps ms g))"
  by (simp add: choose_action_def Let_def split: prod.splits)

theorem C9_choose_action_deterministic_witness:
  "params \<lparr>params = 1 :: real, training = True\<rparr> = params scenario_state
   \<and> fst (choose_action scenario_model scenario_config fixed_source 0 None scenario_state 0) = Inr 0
   \<and> fst (choose_action scenario_model scenario_config fixed_source 0 None
             \<lparr>params = 1, training = True\<rparr> 0) = Inr 0"
proof -
  have p: "params \<lparr>params = 1 :: real, training = True\<rparr> = params scenario_state"
    by (simp add: scenario_state_def)
  from C9_choose_action_deterministic
    [of scenario_model scenario_config fixed_source 0 None scenario_state 0]
  have "fst (choose_action scenario_model scenario_config fixed_source 0 None
               \<lparr>params = 1, training = True\<rparr> 0)
        = fst (choose_action scenario_model scenario_config fixed_source 0 None scenario_state 0)"
    using p by blast
  with p show ?thesis by (simp add: choose_action_uniform_policy)
qed

text \<open>
  C10: \<^verbatim>\<open>choose_action\<close> never reads \<open>epsilon\<close>: for any two values of the argument,
  \<open>None\<close> included, the outcome, the model state and the state of the random source are
  the same.
\<close>

theorem C10_epsilon_ignored:
  "choose_action M cfg R state epsilon1 ms g = choose_action M cfg R state epsilon2 ms g"
  by (simp add: choose_action_def)

subsection \<open>Construction of the configuration\<close>

lemma scenario_config_by_defaults:
  "ActorCriticConfig_init_defaults 2 (9 / 10) 2 3 = Inr scenario_config"
  by (simp add: ActorCriticConfig_init_defaults_def ActorCriticConfig_init_def scenario_config_def)

text \<open>
  C4 (as stated: construction validates the hyperparameters and raises a
  ConfigurationError for an invalid value). The constructor performs no check at all:
  with zero actions, a decay of 2, negative iteration counts and a lambda of 7 it
  returns a configuration holding exactly these values.
\<close>

theorem C4_invalid_config_accepted:
  "ActorCriticConfig_init 0 2 (- 1) (- 3) (- 1) 7 =
     Inr \<lparr> num_actions = 0, reward_decay = 2, actor_train_iters = - 1,
           critic_train_iters = - 3, k = - 1, lam = 7 \<rparr>"
  by (simp add: ActorCriticConfig_init_def)

text \<open>
  C4 (amended): for every combination of constructor arguments, construction raises no
  error and stores the six values unchanged; nothing is validated.
\<close>

theorem C4_config_init_stores_arguments:
  "\<exists>c. ActorCriticConfig_init n g a c' h l = Inr c
       \<and> num_actions c = n \<and> reward_decay c = g \<and> actor_train_iters c = a
       \<and> critic_train_iters c = c' \<and> k c = h \<and> lam c = l"
  by (simp add: ActorCriticConfig_init_def)

subsection \<open>Advantages\<close>

text \<open>
  C8: for return targets \<open>G\<close> and value estimates \<open>V\<close> of the same length, the
  advantage computed at line 90 is a sequence \<open>A\<close> of that length with
  \<open>A ! t = G ! t - V ! t\<close> at every index; the computation is a pure function of
  \<open>G\<close> and \<open>V\<close>.
\<close>

theorem C8_advantage_elementwise:
  assumes "length G = length V"
  shows "\<exists>A. tensor_sub G V = Inr A \<and> length A = length G
             \<and> (\<forall>t < length G. A ! t = G ! t - V ! t)"
  using assms by (simp add: tensor_sub_def tensor_binop_def)

theorem C8_advantage_elementwise_witness:
  "length [3, 5, 8 :: real] = length [1, 1, 10 :: real]
   \<and> tensor_sub [3, 5, 8] [1, 1, 10] = Inr [2, 4, - 2]"
proof -
  have h: "length [3, 5, 8 :: real] = length [1, 1, 10 :: real]" by simp
  from C8_advantage_elementwise [OF h]
  obtain A where "tensor_sub [3, 5, 8] [1, 1, 10] = Inr A" by blast
  moreover have "tensor_sub [3, 5, 8] [1, 1, 10] = Inr [2, 4, - 2]"
    by (simp add: tensor_sub_def tensor_binop_def)
  ultimately show ?thesis by simp
qed



end
